theory Spec2Isabelle
  imports Complex_Main
begin

section \<open>The items service: data model\<close>

text \<open>
  The program is \<^verbatim>\<open>supabase_integration.py\<close>: five request handlers over one table
  \<^verbatim>\<open>items\<close> of a remote record store. Each handler builds a query with the store
  client's builder, executes it, and maps the returned records into its reply.

  \<^verbatim>\<open>class Category(Enum): TOOLS = "tools"; CONSUMABLES = "consumables"\<close>
\<close>

datatype Category = TOOLS | CONSUMABLES

text \<open>\<^verbatim>\<open>category.value\<close>: the string a member stands for.\<close>

fun Category_value :: "Category \<Rightarrow> string" where
  "Category_value TOOLS = ''tools''"
| "Category_value CONSUMABLES = ''consumables''"

text \<open>\<^verbatim>\<open>category.name\<close>: the symbolic name of a member.\<close>

fun Category_name :: "Category \<Rightarrow> string" where
  "Category_name TOOLS = ''TOOLS''"
| "Category_name CONSUMABLES = ''CONSUMABLES''"

text \<open>
  \<^verbatim>\<open>Category(s)\<close>: the lookup by value, as validation of an enum field does it.
  \<open>None\<close> is the ValueError of a string that is no member's value.
\<close>

definition Category_of_value :: "string \<Rightarrow> Category option" where
  "Category_of_value s =
     (if s = ''tools'' then Some TOOLS
      else if s = ''consumables'' then Some CONSUMABLES
      else None)"

text \<open>
  \<^verbatim>\<open>class Item(BaseModel): name: str; price: float; count: int; category: Category\<close>

  The class declares four fields and no \<^verbatim>\<open>id\<close>. Python's float is taken as a real
  number: the handlers only pass prices on and compare them, they never compute with them.
\<close>

record Item =
  name :: string
  price :: real
  count :: int
  category :: Category

text \<open>
  The Python values the handlers receive, hand to the store and return: \<^verbatim>\<open>None\<close>,
  strings, integers, floats, enum members, \<open>Item\<close> objects, lists, tuples and
  dictionaries. A dictionary is an association list in insertion order.
\<close>

datatype py =
    PNone
  | PStr string
  | PInt int
  | PFloat real
  | PCategory Category
  | PItem Item
  | PList "py list"
  | PTuple "py list"
  | PDict "(string \<times> py) list"

type_synonym pydict = "(string \<times> py) list"

text \<open>\<^verbatim>\<open>d[k] = v\<close>: replaces the value of a key in place, or adds the key last.\<close>

fun setitem :: "pydict \<Rightarrow> string \<Rightarrow> py \<Rightarrow> pydict" where
  "setitem [] k v = [(k, v)]"
| "setitem ((k', v') # d) k v = (if k' = k then (k, v) # d else (k', v') # setitem d k v)"

text \<open>
  What can end a request early: FastAPI's rejection of the request's parameters or body
  (status 422, before the handler runs), the ValidationError that \<^verbatim>\<open>Item(**item)\<close>
  raises inside a handler, and an error raised by the store client's
  \<^verbatim>\<open>execute()\<close>, which no handler catches.
\<close>

datatype error = RequestValidationError | ValidationError | APIError

subsection \<open>Validation of an Item\<close>

text \<open>
  \<^verbatim>\<open>Item(**item)\<close> validates the four declared fields and ignores every other key
  (the class sets no model configuration). A missing field fails.
  \<^item> A string field takes a string.
  \<^item> A float field takes a float, or an integer, which becomes the nearest float as
    Python's \<^verbatim>\<open>float(i)\<close> gives it: 53 significant bits, ties to the even
    neighbour, and no float at all from 2 to the power 1024 on.
  \<^item> An integer field takes an integer, or a float that has no fractional part and lies
    strictly between the bounds of a 64-bit integer.
  \<^item> The enum field takes a member or a member's value.

  One conversion of the validation is left out, a limit of this model: text under a
  numeric field. The validation converts numeric text such as \<^verbatim>\<open>"9.99"\<close> to a
  number; here such a cell fails. The properties below use validation on cells that hold
  numbers, or take its result as a hypothesis.
\<close>

text \<open>\<^verbatim>\<open>n.bit_length()\<close> of a natural number.\<close>

fun bit_length :: "nat \<Rightarrow> nat" where
  "bit_length n = (if n = 0 then 0 else Suc (bit_length (n div 2)))"

declare bit_length.simps [simp del]

text \<open>
  \<^verbatim>\<open>float(i)\<close>: the nearest number with 53 significant bits, \<open>None\<close> for the
  OverflowError of an integer beyond the floats.
\<close>

definition py_float_of_int :: "int \<Rightarrow> real option" where
  "py_float_of_int i =
     (let a = nat \<bar>i\<bar>;
          e = bit_length a - 53;
          q = a div 2 ^ e;
          r = a mod 2 ^ e;
          m = (if 2 ^ e < 2 * r \<or> (2 * r = 2 ^ e \<and> odd q) then q + 1 else q) * 2 ^ e
      in if m < 2 ^ 1024 then Some (of_int (sgn i * int m)) else None)"

definition validate_str :: "py option \<Rightarrow> string option" where
  "validate_str v = (case v of Some (PStr s) \<Rightarrow> Some s | _ \<Rightarrow> None)"

definition validate_float :: "py option \<Rightarrow> real option" where
  "validate_float v =
     (case v of Some (PFloat r) \<Rightarrow> Some r | Some (PInt i) \<Rightarrow> py_float_of_int i | _ \<Rightarrow> None)"

definition validate_int :: "py option \<Rightarrow> int option" where
  "validate_int v =
     (case v of
        Some (PInt i) \<Rightarrow> Some i
      | Some (PFloat r) \<Rightarrow>
          (if r = of_int \<lfloor>r\<rfloor> \<and> - (2 ^ 63) < r \<and> r < 2 ^ 63 then Some \<lfloor>r\<rfloor> else None)
      | _ \<Rightarrow> None)"

definition validate_Category :: "py option \<Rightarrow> Category option" where
  "validate_Category v =
     (case v of
        Some (PStr s) \<Rightarrow> Category_of_value s
      | Some (PCategory c) \<Rightarrow> Some c
      | _ \<Rightarrow> None)"

definition Item_validate :: "pydict \<Rightarrow> error + Item" where
  "Item_validate d =
     (case validate_str (map_of d ''name'') of
        None \<Rightarrow> Inl ValidationError
      | Some n \<Rightarrow>
     (case validate_float (map_of d ''price'') of
        None \<Rightarrow> Inl ValidationError
      | Some p \<Rightarrow>
     (case validate_int (map_of d ''count'') of
        None \<Rightarrow> Inl ValidationError
      | Some c \<Rightarrow>
     (case validate_Category (map_of d ''category'') of
        None \<Rightarrow> Inl ValidationError
      | Some cat \<Rightarrow> Inr \<lparr>name = n, price = p, count = c, category = cat\<rparr>))))"

text \<open>
  \<^verbatim>\<open>[Item(**item) for item in response.data]\<close>: the first record that fails
  validation ends the comprehension with its error.
\<close>

fun Items_validate :: "pydict list \<Rightarrow> error + Item list" where
  "Items_validate [] = Inr []"
| "Items_validate (d # ds) =
     (case Item_validate d of
        Inl e \<Rightarrow> Inl e
      | Inr it \<Rightarrow> (case Items_validate ds of Inl e \<Rightarrow> Inl e | Inr its \<Rightarrow> Inr (it # its)))"

text \<open>\<^verbatim>\<open>item.model_dump()\<close>: the four fields, the category still an enum member.\<close>

definition Item_model_dump :: "Item \<Rightarrow> pydict" where
  "Item_model_dump it =
     [(''name'', PStr (name it)), (''price'', PFloat (price it)),
      (''count'', PInt (count it)), (''category'', PCategory (category it))]"

text \<open>
  What a reply element holds under a key: the entry of a dictionary, the field of an
  \<open>Item\<close>; nothing for any other value.
\<close>

definition py_get :: "py \<Rightarrow> string \<Rightarrow> py option" where
  "py_get v k =
     (case v of
        PDict d \<Rightarrow> map_of d k
      | PItem it \<Rightarrow> map_of (Item_model_dump it) k
      | _ \<Rightarrow> None)"

section \<open>The store client\<close>

text \<open>
  A query is what the builder chain
  \<^verbatim>\<open>supabase.table(t).select("*") / .insert(d) / .update(d) / .delete()\<close> followed by
  any number of \<^verbatim>\<open>.eq(column, value)\<close> has collected when \<^verbatim>\<open>.execute()\<close> sends it.
\<close>

datatype verb = Select string | Insert pydict | Update pydict | Delete

record query =
  table :: string
  verb :: verb
  filters :: "(string \<times> py) list"

definition q_select :: "string \<Rightarrow> string \<Rightarrow> query" where
  "q_select t cols = \<lparr>table = t, verb = Select cols, filters = []\<rparr>"

definition q_insert :: "string \<Rightarrow> pydict \<Rightarrow> query" where
  "q_insert t d = \<lparr>table = t, verb = Insert d, filters = []\<rparr>"

definition q_update :: "string \<Rightarrow> pydict \<Rightarrow> query" where
  "q_update t d = \<lparr>table = t, verb = Update d, filters = []\<rparr>"

definition q_delete :: "string \<Rightarrow> query" where
  "q_delete t = \<lparr>table = t, verb = Delete, filters = []\<rparr>"

definition q_eq :: "query \<Rightarrow> string \<Rightarrow> py \<Rightarrow> query" where
  "q_eq q c v = q\<lparr>filters := filters q @ [(c, v)]\<rparr>"

text \<open>
  The store is the program's external collaborator, so the handlers take it as a
  parameter: a client answers a query in a store state with the records of
  \<^verbatim>\<open>response.data\<close>, or with the error that \<^verbatim>\<open>execute()\<close> raises, and the next
  store state. The world a handler runs in is the store state and the log of the queries
  executed so far; \<open>execute\<close> is the only way a handler touches the store, and it logs.
\<close>

type_synonym 's client = "query \<Rightarrow> 's \<Rightarrow> (error + pydict list) \<times> 's"

type_synonym 's world = "'s \<times> query list"

definition execute :: "'s client \<Rightarrow> query \<Rightarrow> 's world \<Rightarrow> (error + pydict list) \<times> 's world" where
  "execute ex q w = (case ex q (fst w) of (r, s') \<Rightarrow> (r, (s', snd w @ [q])))"

section \<open>The handlers\<close>

text \<open>
  \<^verbatim>\<open>
  def index() -> dict[str, list[Item]]:
      response = supabase.table("items").select("*").execute()
      items = [Item(**item) for item in response.data]
      return {"data": items}
  \<close>
\<close>

definition index :: "'s client \<Rightarrow> 's world \<Rightarrow> (error + py) \<times> 's world" where
  "index ex w =
     (case execute ex (q_select ''items'' ''*'') w of
        (Inl e, w') \<Rightarrow> (Inl e, w')
      | (Inr data, w') \<Rightarrow>
          (case Items_validate data of
             Inl e \<Rightarrow> (Inl e, w')
           | Inr items \<Rightarrow> (Inr (PDict [(''data'', PList (map PItem items))]), w')))"

text \<open>
  \<^verbatim>\<open>
  def query_item_by_parameters(name=None, price=None, count=None, category=None):
      query = supabase.table("items").select("*")
      if name is not None:     query = query.eq("name", name)
      if price is not None:    query = query.eq("price", price)
      if count is not None:    query = query.eq("count", count)
      if category is not None: query = query.eq("category", category.value)
      response = query.execute()
      items = [Item(**item) for item in response.data]
      return {"query": {"name": name, "price": price, "count": count, "category": category},
              "selection": items}
  \<close>
\<close>

definition opt_py :: "('a \<Rightarrow> py) \<Rightarrow> 'a option \<Rightarrow> py" where
  "opt_py f v = (case v of None \<Rightarrow> PNone | Some x \<Rightarrow> f x)"

definition query_item_by_parameters ::
  "'s client \<Rightarrow> string option \<Rightarrow> real option \<Rightarrow> int option \<Rightarrow> Category option \<Rightarrow>
   's world \<Rightarrow> (error + py) \<times> 's world" where
  "query_item_by_parameters ex name' price' count' category' w =
     (let q0 = q_select ''items'' ''*'';
          q1 = (case name' of None \<Rightarrow> q0 | Some n \<Rightarrow> q_eq q0 ''name'' (PStr n));
          q2 = (case price' of None \<Rightarrow> q1 | Some p \<Rightarrow> q_eq q1 ''price'' (PFloat p));
          q3 = (case count' of None \<Rightarrow> q2 | Some c \<Rightarrow> q_eq q2 ''count'' (PInt c));
          q4 = (case category' of None \<Rightarrow> q3
                | Some cat \<Rightarrow> q_eq q3 ''category'' (PStr (Category_value cat)))
      in case execute ex q4 w of
           (Inl e, w') \<Rightarrow> (Inl e, w')
         | (Inr data, w') \<Rightarrow>
             (case Items_validate data of
                Inl e \<Rightarrow> (Inl e, w')
              | Inr items \<Rightarrow>
                  (Inr (PDict
                     [(''query'', PDict [(''name'', opt_py PStr name'), (''price'', opt_py PFloat price'),
                                         (''count'', opt_py PInt count'),
                                         (''category'', opt_py PCategory category')]),
                      (''selection'', PList (map PItem items))]), w')))"

text \<open>
  \<^verbatim>\<open>
  def add_item(item: Item) -> dict[str, Item]:
      data = item.model_dump()
      data["category"] = item.category.value
      response = supabase.table("items").insert(data).execute()
      print(response)
      return {"added": item}
  \<close>
  The print to standard output is left out.
\<close>

definition add_item :: "'s client \<Rightarrow> Item \<Rightarrow> 's world \<Rightarrow> (error + py) \<times> 's world" where
  "add_item ex item w =
     (let data = Item_model_dump item;
          data = setitem data ''category'' (PStr (Category_value (category item)))
      in case execute ex (q_insert ''items'' data) w of
           (Inl e, w') \<Rightarrow> (Inl e, w')
         | (Inr response, w') \<Rightarrow> (Inr (PDict [(''added'', PItem item)]), w'))"

text \<open>
  \<^verbatim>\<open>
  def update(item_id, name, price, count, category):
      existing_item_response = supabase.table("items").select("*").eq("id", item_id).execute()
      if not existing_item_response.data:
          return {"message": "Item not found"}, 404
      existing_item = existing_item_response.data[0]
      update_data = {}
      if name is not None:     update_data["name"] = name
      if price is not None:    update_data["price"] = price
      if count is not None:    update_data["count"] = count
      if category is not None: update_data["category"] = category.value
      if update_data:
          response = supabase.table("items").update(update_data).eq("id", item_id).execute()
          if not response.data:
              return {"message": "Item was not updated", "data": response.data}, 400
          else:
              return {"message": "Item updated successfully", "data": response.data}, 200
      else:
          return {"message": "No fields to update"}, 400
  \<close>
  The handler returns the pair of a body and a status code, a Python tuple.
\<close>

definition update ::
  "'s client \<Rightarrow> int \<Rightarrow> string option \<Rightarrow> real option \<Rightarrow> int option \<Rightarrow> Category option \<Rightarrow>
   's world \<Rightarrow> (error + py) \<times> 's world" where
  "update ex item_id name' price' count' category' w =
     (case execute ex (q_eq (q_select ''items'' ''*'') ''id'' (PInt item_id)) w of
        (Inl e, w1) \<Rightarrow> (Inl e, w1)
      | (Inr existing, w1) \<Rightarrow>
          if existing = [] then
            (Inr (PTuple [PDict [(''message'', PStr ''Item not found'')], PInt 404]), w1)
          else
            (let u0 = [];
                 u1 = (case name' of None \<Rightarrow> u0 | Some n \<Rightarrow> setitem u0 ''name'' (PStr n));
                 u2 = (case price' of None \<Rightarrow> u1 | Some p \<Rightarrow> setitem u1 ''price'' (PFloat p));
                 u3 = (case count' of None \<Rightarrow> u2 | Some c \<Rightarrow> setitem u2 ''count'' (PInt c));
                 update_data = (case category' of None \<Rightarrow> u3
                    | Some cat \<Rightarrow> setitem u3 ''category'' (PStr (Category_value cat)))
             in if update_data \<noteq> [] then
                  (case execute ex (q_eq (q_update ''items'' update_data) ''id'' (PInt item_id)) w1 of
                     (Inl e, w2) \<Rightarrow> (Inl e, w2)
                   | (Inr data, w2) \<Rightarrow>
                       if data = [] then
                         (Inr (PTuple [PDict [(''message'', PStr ''Item was not updated''),
                                              (''data'', PList (map PDict data))], PInt 400]), w2)
                       else
                         (Inr (PTuple [PDict [(''message'', PStr ''Item updated successfully''),
                                              (''data'', PList (map PDict data))], PInt 200]), w2))
                else
                  (Inr (PTuple [PDict [(''message'', PStr ''No fields to update'')], PInt 400]), w1)))"

text \<open>
  \<^verbatim>\<open>
  def delete_item(item_id: int) -> dict[str, Item]:
      response = supabase.table("items").delete().eq("id", item_id).execute()
      deleted = []
      if response.data:
          deleted = response.data[0]
      return {"deleted": deleted}
  \<close>
\<close>

definition delete_item :: "'s client \<Rightarrow> int \<Rightarrow> 's world \<Rightarrow> (error + py) \<times> 's world" where
  "delete_item ex item_id w =
     (case execute ex (q_eq (q_delete ''items'') ''id'' (PInt item_id)) w of
        (Inl e, w') \<Rightarrow> (Inl e, w')
      | (Inr data, w') \<Rightarrow>
          (let deleted = PList [];
               deleted = (case data of [] \<Rightarrow> deleted | r # rs \<Rightarrow> PDict r)
           in (Inr (PDict [(''deleted'', deleted)]), w')))"

section \<open>The request layer\<close>

text \<open>
  FastAPI validates a request against the handler's signature before it calls the
  handler; a request that fails gets status 422 and the handler does not run. The
  declarations give the checks:
  \<^verbatim>\<open>
  @app.get("/items/")
  def query_item_by_parameters(name: str | None = None, price: float | None = None,
                               count: int | None = None, category: Category | None = None)
  @app.post("/")
  def add_item(item: Item)
  @app.put("/update/{item_id}")
  def update(item_id: int = Path(ge=0),
             name: str | None = Query(default=None, min_length=1, max_length=8),
             price: float | None = Query(default=None, gt=0.0),
             count: int | None = Query(default=None, ge=0),
             category: Category | None = Query(default=None))
  \<close>
  A request carries its category as text, and a body as a dictionary. Numbers arrive
  here as numbers: text that is no number at all is outside this model. The length of a
  name is its number of characters.
\<close>

definition query_item_by_parameters_request ::
  "'s client \<Rightarrow> string option \<Rightarrow> real option \<Rightarrow> int option \<Rightarrow> string option \<Rightarrow>
   's world \<Rightarrow> (error + py) \<times> 's world" where
  "query_item_by_parameters_request ex name' price' count' category_raw w =
     (case category_raw of
        None \<Rightarrow> query_item_by_parameters ex name' price' count' None w
      | Some v \<Rightarrow>
          (case Category_of_value v of
             None \<Rightarrow> (Inl RequestValidationError, w)
           | Some c \<Rightarrow> query_item_by_parameters ex name' price' count' (Some c) w))"

definition add_item_request :: "'s client \<Rightarrow> pydict \<Rightarrow> 's world \<Rightarrow> (error + py) \<times> 's world" where
  "add_item_request ex body w =
     (case Item_validate body of
        Inl e \<Rightarrow> (Inl RequestValidationError, w)
      | Inr item \<Rightarrow> add_item ex item w)"

definition update_request ::
  "'s client \<Rightarrow> int \<Rightarrow> string option \<Rightarrow> real option \<Rightarrow> int option \<Rightarrow> string option \<Rightarrow>
   's world \<Rightarrow> (error + py) \<times> 's world" where
  "update_request ex item_id name' price' count' category_raw w =
     (if \<not> 0 \<le> item_id then (Inl RequestValidationError, w)
      else if \<not> (case name' of None \<Rightarrow> True | Some n \<Rightarrow> 1 \<le> length n \<and> length n \<le> 8)
        then (Inl RequestValidationError, w)
      else if \<not> (case price' of None \<Rightarrow> True | Some p \<Rightarrow> 0 < p)
        then (Inl RequestValidationError, w)
      else if \<not> (case count' of None \<Rightarrow> True | Some c \<Rightarrow> 0 \<le> c)
        then (Inl RequestValidationError, w)
      else
        (case category_raw of
           None \<Rightarrow> update ex item_id name' price' count' None w
         | Some v \<Rightarrow>
             (case Category_of_value v of
                None \<Rightarrow> (Inl RequestValidationError, w)
              | Some c \<Rightarrow> update ex item_id name' price' count' (Some c) w)))"

section \<open>The declared type of a reply\<close>

text \<open>
  \<^verbatim>\<open>def delete_item(item_id: int) -> dict[str, Item]\<close> declares what the handler
  returns: a dictionary whose every value is an \<open>Item\<close>, that is an \<open>Item\<close> object
  or a dictionary that validates as one. \<open>add_item\<close> declares the same type.
\<close>

definition is_Item :: "py \<Rightarrow> bool" where
  "is_Item v =
     (case v of
        PItem it \<Rightarrow> True
      | PDict d \<Rightarrow> (case Item_validate d of Inl e \<Rightarrow> False | Inr it \<Rightarrow> True)
      | _ \<Rightarrow> False)"

definition is_dict_str_Item :: "py \<Rightarrow> bool" where
  "is_dict_str_Item v = (case v of PDict d \<Rightarrow> list_all (\<lambda>kv. is_Item (snd kv)) d | _ \<Rightarrow> False)"

section \<open>A record store\<close>

text \<open>
  Modelled from the spec: the external record store, which is not part of the
  repository. The spec describes it as a remote table named \<^verbatim>\<open>items\<close> with the
  operations select (with equality filters), insert, update (filtered) and delete
  (filtered), each returning a list of matching records, and as the party that assigns
  an item's integer \<^verbatim>\<open>id\<close>. The state is the table's records in order and the next
  identifier. A filter holds of a record when the record has that value in that column.
\<close>

record store =
  items_table :: "pydict list"
  next_id :: int

definition row_matches :: "(string \<times> py) list \<Rightarrow> pydict \<Rightarrow> bool" where
  "row_matches fs r = list_all (\<lambda>f. map_of r (fst f) = Some (snd f)) fs"

definition apply_update :: "pydict \<Rightarrow> pydict \<Rightarrow> pydict" where
  "apply_update d r = foldl (\<lambda>acc kv. setitem acc (fst kv) (snd kv)) r d"

definition store_execute :: "store client" where
  "store_execute q s =
     (if table q \<noteq> ''items'' then (Inl APIError, s)
      else
        (case verb q of
           Select cols \<Rightarrow> (Inr (filter (row_matches (filters q)) (items_table s)), s)
         | Insert d \<Rightarrow>
             (let r = (''id'', PInt (next_id s)) # d
              in (Inr [r], s\<lparr>items_table := items_table s @ [r], next_id := next_id s + 1\<rparr>))
         | Update d \<Rightarrow>
             (Inr (map (apply_update d) (filter (row_matches (filters q)) (items_table s))),
              s\<lparr>items_table :=
                   map (\<lambda>r. if row_matches (filters q) r then apply_update d r else r)
                     (items_table s)\<rparr>)
         | Delete \<Rightarrow>
             (Inr (filter (row_matches (filters q)) (items_table s)),
              s\<lparr>items_table := filter (\<lambda>r. \<not> row_matches (filters q) r) (items_table s)\<rparr>)))"

text \<open>
  The fixture of the spec's testable properties, as the store holds it: Hammer, Pliers
  and Nails with the identifiers 0, 1 and 2.
\<close>

definition fixture :: store where
  "fixture =
     \<lparr>items_table =
        [[(''id'', PInt 0), (''name'', PStr ''Hammer''), (''price'', PFloat (999 / 100)),
          (''count'', PInt 20), (''category'', PStr ''tools'')],
         [(''id'', PInt 1), (''name'', PStr ''Pliers''), (''price'', PFloat (599 / 100)),
          (''count'', PInt 20), (''category'', PStr ''tools'')],
         [(''id'', PInt 2), (''name'', PStr ''Nails''), (''price'', PFloat (199 / 100)),
          (''count'', PInt 100), (''category'', PStr ''consumables'')]],
      next_id = 3\<rparr>"

section \<open>Properties of the handlers\<close>

text \<open>
  Every call a handler makes goes through \<open>execute\<close>, which appends the query to the
  log: what a handler sent to the store is read off the log.
\<close>

lemma execute_log: "ex q s = (r, s') \<Longrightarrow> execute ex q (s, calls) = (r, (s', calls @ [q]))"
  by (simp add: execute_def)

subsection \<open>Facts about the record store and the fixture\<close>

lemma store_insert:
  "store_execute \<lparr>table = ''items'', verb = Insert d, filters = []\<rparr> s =
     (Inr [(''id'', PInt (next_id s)) # d],
      s\<lparr>items_table := items_table s @ [(''id'', PInt (next_id s)) # d],
        next_id := next_id s + 1\<rparr>)"
  by (simp add: store_execute_def Let_def)

lemma store_select_all:
  "store_execute \<lparr>table = ''items'', verb = Select cols, filters = []\<rparr> s
     = (Inr (items_table s), s)"
  by (simp add: store_execute_def row_matches_def)

lemma row_matches_append:
  "row_matches (fs @ gs) r \<longleftrightarrow> row_matches fs r \<and> row_matches gs r"
  by (simp add: row_matches_def)

lemma fixture_lookup_7:
  "store_execute \<lparr>table = ''items'', verb = Select ''*'', filters = [(''id'', PInt 7)]\<rparr> fixture
     = (Inr [], fixture)"
  by (simp add: store_execute_def fixture_def row_matches_def)

lemma fixture_lookup_1:
  "store_execute \<lparr>table = ''items'', verb = Select ''*'', filters = [(''id'', PInt 1)]\<rparr> fixture =
     (Inr [[(''id'', PInt 1), (''name'', PStr ''Pliers''), (''price'', PFloat (599 / 100)),
            (''count'', PInt 20), (''category'', PStr ''tools'')]], fixture)"
  by (simp add: store_execute_def fixture_def row_matches_def)

lemma fixture_delete_7:
  "store_execute \<lparr>table = ''items'', verb = Delete, filters = [(''id'', PInt 7)]\<rparr> fixture
     = (Inr [], fixture)"
  by (simp add: store_execute_def fixture_def row_matches_def)

lemma fixture_delete_1:
  "store_execute \<lparr>table = ''items'', verb = Delete, filters = [(''id'', PInt 1)]\<rparr> fixture =
     (Inr [[(''id'', PInt 1), (''name'', PStr ''Pliers''), (''price'', PFloat (599 / 100)),
            (''count'', PInt 20), (''category'', PStr ''tools'')]],
      fixture\<lparr>items_table :=
        [[(''id'', PInt 0), (''name'', PStr ''Hammer''), (''price'', PFloat (999 / 100)),
          (''count'', PInt 20), (''category'', PStr ''tools'')],
         [(''id'', PInt 2), (''name'', PStr ''Nails''), (''price'', PFloat (199 / 100)),
          (''count'', PInt 100), (''category'', PStr ''consumables'')]]\<rparr>)"
  by (simp add: store_execute_def fixture_def row_matches_def)

lemma fixture_tools_rows:
  "filter (row_matches [(''category'', PStr ''tools'')]) (items_table fixture) =
     [[(''id'', PInt 0), (''name'', PStr ''Hammer''), (''price'', PFloat (999 / 100)),
       (''count'', PInt 20), (''category'', PStr ''tools'')],
      [(''id'', PInt 1), (''name'', PStr ''Pliers''), (''price'', PFloat (599 / 100)),
       (''count'', PInt 20), (''category'', PStr ''tools'')]]"
  by (simp add: fixture_def row_matches_def)

lemma fixture_valid:
  "Items_validate (items_table fixture) =
     Inr [\<lparr>name = ''Hammer'', price = 999 / 100, count = 20, category = TOOLS\<rparr>,
          \<lparr>name = ''Pliers'', price = 599 / 100, count = 20, category = TOOLS\<rparr>,
          \<lparr>name = ''Nails'', price = 199 / 100, count = 100, category = CONSUMABLES\<rparr>]"
  by (simp add: fixture_def Item_validate_def validate_str_def validate_float_def
        validate_int_def validate_Category_def Category_of_value_def)

subsection \<open>Facts about validation\<close>

lemma Category_value_not_name: "Category_value c \<noteq> Category_name c"
  by (cases c) simp_all

lemma Category_of_value_outside:
  "v \<noteq> ''tools'' \<Longrightarrow> v \<noteq> ''consumables'' \<Longrightarrow> Category_of_value v = None"
  by (simp add: Category_of_value_def)

lemma validate_Category_outside:
  "cell \<notin> {PStr ''tools'', PStr ''consumables'', PCategory TOOLS, PCategory CONSUMABLES}
   \<Longrightarrow> validate_Category (Some cell) = None"
  by (cases cell)
     (auto simp: validate_Category_def Category_of_value_def intro: Category.exhaust)

lemma bit_length_le: "n < 2 ^ k \<Longrightarrow> bit_length n \<le> k"
proof (induction n arbitrary: k rule: bit_length.induct)
  case (1 n)
  show ?case
  proof (cases "n = 0")
    case True
    then show ?thesis by (simp add: bit_length.simps)
  next
    case False
    with "1.prems" obtain j where k: "k = Suc j"
      by (cases k) auto
    with "1.prems" have "n div 2 < 2 ^ j" by auto
    with "1.IH" [OF False] have "bit_length (n div 2) \<le> j" .
    with False k show ?thesis by (subst bit_length.simps) simp
  qed
qed

text \<open>Integers below 2 to the power 53 in magnitude become floats unchanged.\<close>

lemma py_float_of_int_exact: "\<bar>i\<bar> < 2 ^ 53 \<Longrightarrow> py_float_of_int i = Some (of_int i)"
proof -
  assume "\<bar>i\<bar> < 2 ^ 53"
  then have below: "nat \<bar>i\<bar> < 2 ^ 53"
    by (simp add: nat_less_iff)
  then have e: "bit_length (nat \<bar>i\<bar>) - 53 = 0"
    using bit_length_le [of "nat \<bar>i\<bar>" 53] by simp
  have small: "nat \<bar>i\<bar> < 2 ^ 1024"
    using below by (rule less_trans) simp
  have "sgn i * int (nat \<bar>i\<bar>) = i"
    by (simp add: sgn_if)
  with e small show ?thesis
    by (simp add: py_float_of_int_def Let_def)
qed

text \<open>
  Beyond that the conversion rounds: 9007199254740993, a tie between its two
  neighbours, becomes 9007199254740992. An integer-valued float at the bound of the
  64-bit integers is no integer for the count field.
\<close>

lemma py_float_of_int_rounds: "py_float_of_int 9007199254740993 = Some 9007199254740992"
proof -
  have "bit_length 9007199254740993 = 54"
    by (simp add: bit_length.simps)
  then show ?thesis
    by (simp add: py_float_of_int_def Let_def)
qed

lemma validate_int_float_range:
  "validate_int (Some (PFloat 20)) = Some 20 \<and> validate_int (Some (PFloat (2 ^ 63))) = None"
  by (simp add: validate_int_def)

lemma Item_validate_bad_category:
  "validate_Category (map_of body ''category'') = None \<Longrightarrow> Item_validate body = Inl ValidationError"
  by (simp add: Item_validate_def split: option.splits)

lemma Item_validate_body:
  "Item_validate [(''name'', PStr n), (''price'', PFloat p), (''count'', PInt c),
                  (''category'', PStr (Category_value cat))]
     = Inr \<lparr>name = n, price = p, count = c, category = cat\<rparr>"
  by (cases cat)
     (simp_all add: Item_validate_def validate_str_def validate_float_def validate_int_def
        validate_Category_def Category_of_value_def)

lemma Item_validate_stored_row:
  "Item_validate [(''id'', PInt i), (''name'', PStr (name item)), (''price'', PFloat (price item)),
                  (''count'', PInt (count item)),
                  (''category'', PStr (Category_value (category item)))] = Inr item"
  by (cases "category item")
     (simp_all add: Item_validate_def validate_str_def validate_float_def validate_int_def
        validate_Category_def Category_of_value_def)

lemma Items_validate_append:
  "Items_validate (xs @ ys) =
     (case Items_validate xs of
        Inl e \<Rightarrow> Inl e
      | Inr a \<Rightarrow> (case Items_validate ys of Inl e \<Rightarrow> Inl e | Inr b \<Rightarrow> Inr (a @ b)))"
  by (induction xs) (auto split: sum.splits)

subsection \<open>What each handler sends\<close>

lemma query_item_by_parameters_calls:
  "snd (snd (query_item_by_parameters ex name' price' count' category' (s, calls))) =
     calls @ [\<lparr>table = ''items'', verb = Select ''*'',
               filters =
                 (case name' of None \<Rightarrow> [] | Some n \<Rightarrow> [(''name'', PStr n)]) @
                 (case price' of None \<Rightarrow> [] | Some p \<Rightarrow> [(''price'', PFloat p)]) @
                 (case count' of None \<Rightarrow> [] | Some c \<Rightarrow> [(''count'', PInt c)]) @
                 (case category' of None \<Rightarrow> []
                  | Some cat \<Rightarrow> [(''category'', PStr (Category_value cat))])\<rparr>]"
  by (cases name'; cases price'; cases count'; cases category')
     (simp_all add: query_item_by_parameters_def q_select_def q_eq_def execute_def Let_def
        split: prod.splits sum.splits)

lemma add_item_calls:
  "snd (snd (add_item ex item (s, calls))) =
     calls @ [\<lparr>table = ''items'',
               verb = Insert [(''name'', PStr (name item)), (''price'', PFloat (price item)),
                              (''count'', PInt (count item)),
                              (''category'', PStr (Category_value (category item)))],
               filters = []\<rparr>]"
  by (simp add: add_item_def Item_model_dump_def q_insert_def execute_def Let_def
        split: prod.splits sum.splits)

lemma fixture_tools_selection:
  "fst (query_item_by_parameters store_execute None None None (Some TOOLS) (fixture, [])) =
     Inr (PDict [(''query'', PDict [(''name'', PNone), (''price'', PNone), (''count'', PNone),
                                    (''category'', PCategory TOOLS)]),
                 (''selection'',
                  PList [PItem \<lparr>name = ''Hammer'', price = 999 / 100, count = 20, category = TOOLS\<rparr>,
                         PItem \<lparr>name = ''Pliers'', price = 599 / 100, count = 20, category = TOOLS\<rparr>])])"
  by (simp add: query_item_by_parameters_def q_select_def q_eq_def execute_def Let_def
        store_execute_def fixture_tools_rows opt_py_def
        Item_validate_def validate_str_def validate_float_def validate_int_def
        validate_Category_def Category_of_value_def)

section \<open>The claims\<close>

subsection \<open>Filtered query\<close>

text \<open>
  C1: for every combination of supplied parameters, \<open>query_item_by_parameters\<close> sends
  exactly one query: a select of all columns of \<^verbatim>\<open>items\<close> whose filters are one
  equality per supplied parameter, in the order name, price, count, category, and nothing
  for a parameter left out. A record satisfies the filters exactly when it has the
  supplied value in the column of every supplied parameter (a conjunction of equalities).
  The category is compared with the member's string value; the member's symbolic name
  is never sent. The store is any client.
\<close>

theorem filtered_query_conjunction_of_equalities:
  "\<exists>q. snd (snd (query_item_by_parameters ex name' price' count' category' (s, calls))) = calls @ [q]
     \<and> table q = ''items'' \<and> verb q = Select ''*''
     \<and> filters q =
          (case name' of None \<Rightarrow> [] | Some n \<Rightarrow> [(''name'', PStr n)]) @
          (case price' of None \<Rightarrow> [] | Some p \<Rightarrow> [(''price'', PFloat p)]) @
          (case count' of None \<Rightarrow> [] | Some c \<Rightarrow> [(''count'', PInt c)]) @
          (case category' of None \<Rightarrow> []
           | Some cat \<Rightarrow> [(''category'', PStr (Category_value cat))])
     \<and> (\<forall>r. row_matches (filters q) r \<longleftrightarrow>
            (\<forall>n. name' = Some n \<longrightarrow> map_of r ''name'' = Some (PStr n))
          \<and> (\<forall>p. price' = Some p \<longrightarrow> map_of r ''price'' = Some (PFloat p))
          \<and> (\<forall>c. count' = Some c \<longrightarrow> map_of r ''count'' = Some (PInt c))
          \<and> (\<forall>cat. category' = Some cat \<longrightarrow>
                 map_of r ''category'' = Some (PStr (Category_value cat))))
     \<and> (\<forall>cat. category' = Some cat \<longrightarrow>
            (''category'', PStr (Category_name cat)) \<notin> set (filters q))"
proof -
  let ?F = "(case name' of None \<Rightarrow> [] | Some n \<Rightarrow> [(''name'', PStr n)]) @
          (case price' of None \<Rightarrow> [] | Some p \<Rightarrow> [(''price'', PFloat p)]) @
          (case count' of None \<Rightarrow> [] | Some c \<Rightarrow> [(''count'', PInt c)]) @
          (case category' of None \<Rightarrow> []
           | Some cat \<Rightarrow> [(''category'', PStr (Category_value cat))])"
  let ?q = "\<lparr>table = ''items'', verb = Select ''*'', filters = ?F\<rparr>"
  have sem: "row_matches ?F r \<longleftrightarrow>
            (\<forall>n. name' = Some n \<longrightarrow> map_of r ''name'' = Some (PStr n))
          \<and> (\<forall>p. price' = Some p \<longrightarrow> map_of r ''price'' = Some (PFloat p))
          \<and> (\<forall>c. count' = Some c \<longrightarrow> map_of r ''count'' = Some (PInt c))
          \<and> (\<forall>cat. category' = Some cat \<longrightarrow>
                 map_of r ''category'' = Some (PStr (Category_value cat)))" for r
    by (cases name'; cases price'; cases count'; cases category')
       (simp_all add: row_matches_append, simp_all add: row_matches_def)
  have nm: "\<forall>cat. category' = Some cat \<longrightarrow> (''category'', PStr (Category_name cat)) \<notin> set ?F"
    by (cases name'; cases price'; cases count'; cases category')
       (simp_all add: Category_value_not_name [symmetric])
  show ?thesis
    by (intro exI [of _ ?q])
       (simp add: query_item_by_parameters_calls sem nm Category_value_not_name [symmetric]
          del: append.simps)
qed

text \<open>
  The spec's fixture: with Hammer, Pliers and Nails in the store, the filter
  \<^verbatim>\<open>category=tools\<close> sends the one filter \<^verbatim>\<open>("category", "tools")\<close>, which
  Hammer's and Pliers' records satisfy and no other, and the selection is Hammer and
  Pliers.
\<close>

theorem filtered_query_conjunction_of_equalities_witness:
  "snd (snd (query_item_by_parameters store_execute None None None (Some TOOLS) (fixture, []))) =
      [\<lparr>table = ''items'', verb = Select ''*'', filters = [(''category'', PStr ''tools'')]\<rparr>]
   \<and> filter (row_matches [(''category'', PStr ''tools'')]) (items_table fixture) =
     [[(''id'', PInt 0), (''name'', PStr ''Hammer''), (''price'', PFloat (999 / 100)),
       (''count'', PInt 20), (''category'', PStr ''tools'')],
      [(''id'', PInt 1), (''name'', PStr ''Pliers''), (''price'', PFloat (599 / 100)),
       (''count'', PInt 20), (''category'', PStr ''tools'')]]
   \<and> fst (query_item_by_parameters store_execute None None None (Some TOOLS) (fixture, [])) =
     Inr (PDict [(''query'', PDict [(''name'', PNone), (''price'', PNone), (''count'', PNone),
                                    (''category'', PCategory TOOLS)]),
                 (''selection'',
                  PList [PItem \<lparr>name = ''Hammer'', price = 999 / 100, count = 20, category = TOOLS\<rparr>,
                         PItem \<lparr>name = ''Pliers'', price = 599 / 100, count = 20, category = TOOLS\<rparr>])])"
proof -
  obtain q where
    q: "snd (snd (query_item_by_parameters store_execute None None None (Some TOOLS) (fixture, [])))
          = [] @ [q]"
    and t: "table q = ''items''" and v: "verb q = Select ''*''"
    and f: "filters q = [(''category'', PStr ''tools'')]"
    using filtered_query_conjunction_of_equalities
      [of store_execute None None None "Some TOOLS" fixture "[]"]
    by auto
  have "q = \<lparr>table = ''items'', verb = Select ''*'', filters = [(''category'', PStr ''tools'')]\<rparr>"
    using t v f by (cases q) simp
  with q show ?thesis
    by (simp add: fixture_tools_rows fixture_tools_selection)
qed

text \<open>
  C7: in every store state and for every client, the filtered query without parameters
  sends the same query as the listing, the unfiltered select of all columns of
  \<^verbatim>\<open>items\<close>, and leaves the same world. Both replies come from the same outcome
  \<open>r\<close>: the same error, or the same list of items, which the listing returns under
  \<^verbatim>\<open>data\<close> and the query under \<^verbatim>\<open>selection\<close>, next to an echo of the query whose
  four entries are all \<^verbatim>\<open>None\<close>.
\<close>

theorem zero_parameter_query_is_listing:
  "\<exists>r. fst (index ex w) = map_sum id (\<lambda>xs. PDict [(''data'', PList xs)]) r
     \<and> fst (query_item_by_parameters ex None None None None w) =
         map_sum id (\<lambda>xs. PDict [(''query'', PDict [(''name'', PNone), (''price'', PNone),
                                                        (''count'', PNone), (''category'', PNone)]),
                                  (''selection'', PList xs)]) r
     \<and> snd (query_item_by_parameters ex None None None None w) = snd (index ex w)
     \<and> snd (snd (index ex w)) = snd w @ [\<lparr>table = ''items'', verb = Select ''*'', filters = []\<rparr>]"
proof -
  obtain r w' where run: "execute ex (q_select ''items'' ''*'') w = (r, w')"
    by (cases "execute ex (q_select ''items'' ''*'') w") auto
  have sent: "snd w' = snd w @ [\<lparr>table = ''items'', verb = Select ''*'', filters = []\<rparr>]"
    using run by (auto simp: execute_def q_select_def split: prod.splits)
  show ?thesis
  proof (cases r)
    case (Inl e)
    with run sent show ?thesis
      by (intro exI [of _ "Inl e"]) (simp add: index_def query_item_by_parameters_def)
  next
    case (Inr data)
    show ?thesis
    proof (cases "Items_validate data")
      case (Inl e)
      with run Inr sent show ?thesis
        by (intro exI [of _ "Inl e"]) (simp add: index_def query_item_by_parameters_def)
    next
      case (Inr items)
      with run \<open>r = Inr data\<close> sent show ?thesis
        by (intro exI [of _ "Inr (map PItem items)"])
           (simp add: index_def query_item_by_parameters_def opt_py_def)
    qed
  qed
qed

subsection \<open>Creation\<close>

text \<open>
  C6: for every payload that validates as an \<open>Item\<close>, when the store answers the
  insert, the create operation returns exactly \<^verbatim>\<open>{"added": item}\<close> with the validated
  item, whatever records the store's answer holds: the reply has no \<^verbatim>\<open>id\<close>. The one
  query it sends inserts the item's four fields, the category as the member's string
  value. The store is any client.
\<close>

theorem add_item_returns_validated_input:
  assumes "Item_validate body = Inr item"
    and "ex \<lparr>table = ''items'',
             verb = Insert [(''name'', PStr (name item)), (''price'', PFloat (price item)),
                            (''count'', PInt (count item)),
                            (''category'', PStr (Category_value (category item)))],
             filters = []\<rparr> s = (Inr response, s')"
  shows "add_item_request ex body (s, calls) =
     (Inr (PDict [(''added'', PItem item)]),
      (s', calls @ [\<lparr>table = ''items'',
             verb = Insert [(''name'', PStr (name item)), (''price'', PFloat (price item)),
                            (''count'', PInt (count item)),
                            (''category'', PStr (Category_value (category item)))],
             filters = []\<rparr>]))
     \<and> py_get (PItem item) ''id'' = None"
  using assms
  by (simp add: add_item_request_def add_item_def Item_model_dump_def q_insert_def execute_log
        py_get_def)

theorem add_item_returns_validated_input_witness:
  "add_item_request store_execute
      [(''name'', PStr ''Saw''), (''price'', PFloat (25 / 2)), (''count'', PInt 4),
       (''category'', PStr ''tools'')] (fixture, []) =
     (Inr (PDict [(''added'', PItem \<lparr>name = ''Saw'', price = 25 / 2, count = 4, category = TOOLS\<rparr>)]),
      (fixture\<lparr>items_table := items_table fixture @
           [[(''id'', PInt 3), (''name'', PStr ''Saw''), (''price'', PFloat (25 / 2)),
             (''count'', PInt 4), (''category'', PStr ''tools'')]],
         next_id := 4\<rparr>,
       [\<lparr>table = ''items'',
         verb = Insert [(''name'', PStr ''Saw''), (''price'', PFloat (25 / 2)),
                        (''count'', PInt 4), (''category'', PStr ''tools'')],
         filters = []\<rparr>]))"
  using Item_validate_body [of "''Saw''" "25 / 2" 4 TOOLS]
    add_item_returns_validated_input
    [of "[(''name'', PStr ''Saw''), (''price'', PFloat (25 / 2)), (''count'', PInt 4),
          (''category'', PStr (Category_value TOOLS))]"
        "\<lparr>name = ''Saw'', price = 25 / 2, count = 4, category = TOOLS\<rparr>"
        store_execute fixture
        "[[(''id'', PInt 3), (''name'', PStr ''Saw''), (''price'', PFloat (25 / 2)),
           (''count'', PInt 4), (''category'', PStr ''tools'')]]"
        "fixture\<lparr>items_table := items_table fixture @
           [[(''id'', PInt 3), (''name'', PStr ''Saw''), (''price'', PFloat (25 / 2)),
             (''count'', PInt 4), (''category'', PStr ''tools'')]],
           next_id := 4\<rparr>"
        "[]"]
  by (simp add: store_insert fixture_def)

text \<open>
  C10: the create operation checks the types of the Item schema only. A body with any
  name, any price and any count validates, and the handler sends its insert to the
  store: the request ends as the store answers that insert, with the store's error or
  with \<^verbatim>\<open>{"added": item}\<close>, in the store state the insert left, and the insert is
  the one query logged. In particular this holds of the body with the empty name, the
  price -1 and the count -5, while the update route rejects each of these three values
  without any query. The store is any client.
\<close>

theorem add_item_request_unconstrained:
  "add_item_request ex
      [(''name'', PStr n), (''price'', PFloat p), (''count'', PInt c),
       (''category'', PStr (Category_value cat))] (s, calls)
     = (case ex \<lparr>table = ''items'',
                  verb = Insert [(''name'', PStr n), (''price'', PFloat p), (''count'', PInt c),
                                 (''category'', PStr (Category_value cat))],
                  filters = []\<rparr> s of
          (answer, s') \<Rightarrow>
            (case answer of
               Inl e \<Rightarrow> Inl e
             | Inr response \<Rightarrow>
                 Inr (PDict [(''added'', PItem \<lparr>name = n, price = p, count = c, category = cat\<rparr>)]),
             (s', calls @ [\<lparr>table = ''items'',
                  verb = Insert [(''name'', PStr n), (''price'', PFloat p), (''count'', PInt c),
                                 (''category'', PStr (Category_value cat))],
                  filters = []\<rparr>])))
   \<and> add_item_request ex
        [(''name'', PStr []), (''price'', PFloat (- 1)), (''count'', PInt (- 5)),
         (''category'', PStr ''tools'')] (s, calls)
     = (case ex \<lparr>table = ''items'',
                  verb = Insert [(''name'', PStr []), (''price'', PFloat (- 1)),
                                 (''count'', PInt (- 5)), (''category'', PStr ''tools'')],
                  filters = []\<rparr> s of
          (answer, s') \<Rightarrow>
            (case answer of
               Inl e \<Rightarrow> Inl e
             | Inr response \<Rightarrow>
                 Inr (PDict [(''added'',
                        PItem \<lparr>name = [], price = - 1, count = - 5, category = TOOLS\<rparr>)]),
             (s', calls @ [\<lparr>table = ''items'',
                  verb = Insert [(''name'', PStr []), (''price'', PFloat (- 1)),
                                 (''count'', PInt (- 5)), (''category'', PStr ''tools'')],
                  filters = []\<rparr>])))
   \<and> update_request ex 0 (Some []) None None None (s, calls)
       = (Inl RequestValidationError, (s, calls))
   \<and> update_request ex 0 None (Some (- 1)) None None (s, calls)
       = (Inl RequestValidationError, (s, calls))
   \<and> update_request ex 0 None None (Some (- 5)) None (s, calls)
       = (Inl RequestValidationError, (s, calls))"
proof -
  have accepted: "add_item_request ex
      [(''name'', PStr n), (''price'', PFloat p), (''count'', PInt c),
       (''category'', PStr (Category_value cat))] (s, calls)
     = (case ex \<lparr>table = ''items'',
                  verb = Insert [(''name'', PStr n), (''price'', PFloat p), (''count'', PInt c),
                                 (''category'', PStr (Category_value cat))],
                  filters = []\<rparr> s of
          (answer, s') \<Rightarrow>
            (case answer of
               Inl e \<Rightarrow> Inl e
             | Inr response \<Rightarrow>
                 Inr (PDict [(''added'', PItem \<lparr>name = n, price = p, count = c, category = cat\<rparr>)]),
             (s', calls @ [\<lparr>table = ''items'',
                  verb = Insert [(''name'', PStr n), (''price'', PFloat p), (''count'', PInt c),
                                 (''category'', PStr (Category_value cat))],
                  filters = []\<rparr>])))" for n p c cat
    by (simp add: add_item_request_def Item_validate_body add_item_def Item_model_dump_def
          q_insert_def execute_def Let_def split: prod.splits sum.splits)
  show ?thesis
    using accepted [of n p c cat] accepted [of "[]" "- 1" "- 5" TOOLS]
    by (simp add: update_request_def)
qed

text \<open>
  On the fixture: the body with the empty name, the price -1 and the count -5 is
  accepted, and the store holds its record, with the identifier 3, afterwards.
\<close>

theorem add_item_request_unconstrained_witness:
  "add_item_request store_execute
      [(''name'', PStr []), (''price'', PFloat (- 1)), (''count'', PInt (- 5)),
       (''category'', PStr ''tools'')] (fixture, []) =
     (Inr (PDict [(''added'', PItem \<lparr>name = [], price = - 1, count = - 5, category = TOOLS\<rparr>)]),
      (fixture\<lparr>items_table := items_table fixture @
           [[(''id'', PInt 3), (''name'', PStr []), (''price'', PFloat (- 1)),
             (''count'', PInt (- 5)), (''category'', PStr ''tools'')]],
         next_id := 4\<rparr>,
       [\<lparr>table = ''items'',
         verb = Insert [(''name'', PStr []), (''price'', PFloat (- 1)),
                        (''count'', PInt (- 5)), (''category'', PStr ''tools'')],
         filters = []\<rparr>]))"
  using add_item_request_unconstrained [of store_execute "[]" "- 1" "- 5" TOOLS fixture "[]"]
  by (simp add: store_insert fixture_def)

text \<open>
  C2, as amended: in the record store of the spec, when every record already stored
  validates (to the items \<open>old\<close>), creating an item stores a record with the item's
  four fields and the store's next integer \<^verbatim>\<open>id\<close>, and the listing that follows
  returns the old items and then the created item, equal to it in name, price, count and
  category. The listed item holds nothing under \<^verbatim>\<open>id\<close>: the identifier stays in the
  store's record.
\<close>

theorem create_then_list_includes_item:
  assumes "Items_validate (items_table s) = Inr old"
  shows "\<exists>s1 calls1.
       add_item store_execute item (s, calls) = (Inr (PDict [(''added'', PItem item)]), (s1, calls1))
     \<and> items_table s1 = items_table s @
          [[(''id'', PInt (next_id s)), (''name'', PStr (name item)),
            (''price'', PFloat (price item)), (''count'', PInt (count item)),
            (''category'', PStr (Category_value (category item)))]]
     \<and> fst (index store_execute (s1, calls1))
          = Inr (PDict [(''data'', PList (map PItem old @ [PItem item]))])
     \<and> py_get (PItem item) ''id'' = None"
  using assms
  by (simp add: add_item_def Item_model_dump_def q_insert_def execute_def Let_def store_insert
        index_def q_select_def store_select_all Items_validate_append Item_validate_stored_row
        py_get_def)

theorem create_then_list_includes_item_witness:
  "fst (index store_execute
          (snd (add_item store_execute \<lparr>name = ''Saw'', price = 25 / 2, count = 4, category = TOOLS\<rparr>
                  (fixture, [])))) =
     Inr (PDict [(''data'',
        PList [PItem \<lparr>name = ''Hammer'', price = 999 / 100, count = 20, category = TOOLS\<rparr>,
               PItem \<lparr>name = ''Pliers'', price = 599 / 100, count = 20, category = TOOLS\<rparr>,
               PItem \<lparr>name = ''Nails'', price = 199 / 100, count = 100, category = CONSUMABLES\<rparr>,
               PItem \<lparr>name = ''Saw'', price = 25 / 2, count = 4, category = TOOLS\<rparr>])])"
  using create_then_list_includes_item
    [OF fixture_valid, of "\<lparr>name = ''Saw'', price = 25 / 2, count = 4, category = TOOLS\<rparr>" "[]"]
  by auto

text \<open>
  C2 as stated fails: after Hammer is created in the empty store, the store's record has
  the identifier 1, yet the listing is the single item Hammer, and no element of the
  listing holds an integer under \<^verbatim>\<open>id\<close>.
\<close>

theorem listing_carries_id_counterexample:
  "items_table (fst (snd (add_item store_execute
        \<lparr>name = ''Hammer'', price = 999 / 100, count = 20, category = TOOLS\<rparr>
        (\<lparr>items_table = [], next_id = 1\<rparr>, [])))) =
     [[(''id'', PInt 1), (''name'', PStr ''Hammer''), (''price'', PFloat (999 / 100)),
       (''count'', PInt 20), (''category'', PStr ''tools'')]]
   \<and> fst (index store_execute (snd (add_item store_execute
        \<lparr>name = ''Hammer'', price = 999 / 100, count = 20, category = TOOLS\<rparr>
        (\<lparr>items_table = [], next_id = 1\<rparr>, [])))) =
     Inr (PDict [(''data'',
        PList [PItem \<lparr>name = ''Hammer'', price = 999 / 100, count = 20, category = TOOLS\<rparr>])])
   \<and> \<not> (\<exists>x \<in> set [PItem \<lparr>name = ''Hammer'', price = 999 / 100, count = 20, category = TOOLS\<rparr>].
          \<exists>i. py_get x ''id'' = Some (PInt i))"
  by (simp add: add_item_def Item_model_dump_def q_insert_def execute_def Let_def store_insert
        index_def q_select_def store_select_all py_get_def
        Item_validate_def validate_str_def validate_float_def validate_int_def
        validate_Category_def Category_of_value_def)

subsection \<open>Partial update\<close>

text \<open>
  What \<open>update\<close> does when its existence lookup returns no record, for any client:
  it returns, as an ordinary value, the tuple of the body
  \<^verbatim>\<open>{"message": "Item not found"}\<close> and the number 404, whatever optional parameters
  were supplied, and the lookup is the only query it sends.
\<close>

lemma update_missing_item_not_found:
  assumes "ex \<lparr>table = ''items'', verb = Select ''*'', filters = [(''id'', PInt item_id)]\<rparr> s
             = (Inr [], s')"
  shows "update ex item_id name' price' count' category' (s, calls) =
     (Inr (PTuple [PDict [(''message'', PStr ''Item not found'')], PInt 404]),
      (s', calls @ [\<lparr>table = ''items'', verb = Select ''*'',
                      filters = [(''id'', PInt item_id)]\<rparr>]))"
  using assms by (simp add: update_def q_select_def q_eq_def execute_log)

text \<open>
  What \<open>update\<close> does when the lookup returns a record and no optional parameter was
  supplied, for any client: it returns, as an ordinary value, the tuple of the body
  \<^verbatim>\<open>{"message": "No fields to update"}\<close> and the number 400, and the lookup is the
  only query it sends.
\<close>

lemma update_without_fields:
  assumes "ex \<lparr>table = ''items'', verb = Select ''*'', filters = [(''id'', PInt item_id)]\<rparr> s
             = (Inr existing, s')"
    and "existing \<noteq> []"
  shows "update ex item_id None None None None (s, calls) =
     (Inr (PTuple [PDict [(''message'', PStr ''No fields to update'')], PInt 400]),
      (s', calls @ [\<lparr>table = ''items'', verb = Select ''*'',
                      filters = [(''id'', PInt item_id)]\<rparr>]))"
  using assms by (simp add: update_def q_select_def q_eq_def execute_log)

text \<open>
  C3: the claim asks for a 404 "Item not found" outcome when the item does not exist.
  The code does not give one. For the identifier 7, which the fixture does not hold, the
  update route ends without any error: the handler returns the tuple of the body
  \<^verbatim>\<open>{"message": "Item not found"}\<close> and the number 404 as its reply. The 404 is an
  element of the returned value; the handler sets no status and raises no HTTPException,
  so the reply is that of a request that succeeded. Only the lookup was sent.
\<close>

theorem update_missing_item_returns_tuple:
  "update_request store_execute 7 (Some ''Saw'') None (Some 3) (Some ''tools'') (fixture, []) =
     (Inr (PTuple [PDict [(''message'', PStr ''Item not found'')], PInt 404]),
      (fixture, [\<lparr>table = ''items'', verb = Select ''*'', filters = [(''id'', PInt 7)]\<rparr>]))"
  using fixture_lookup_7 update_missing_item_not_found
      [of store_execute 7 fixture fixture "Some ''Saw''" None "Some 3" "Some TOOLS" "[]"]
  by (simp add: update_request_def Category_of_value_def)

text \<open>
  C4: the claim asks for a 400 "No fields to update" failure when no optional parameter
  is supplied for an existing item. The code does not give one. For the identifier 1 of
  the fixture and no parameter, the update route ends without any error: the handler
  returns the tuple of the body \<^verbatim>\<open>{"message": "No fields to update"}\<close> and the
  number 400 as its reply, and sets no status. Only the lookup was sent.
\<close>

theorem update_without_fields_returns_tuple:
  "update_request store_execute 1 None None None None (fixture, []) =
     (Inr (PTuple [PDict [(''message'', PStr ''No fields to update'')], PInt 400]),
      (fixture, [\<lparr>table = ''items'', verb = Select ''*'', filters = [(''id'', PInt 1)]\<rparr>]))"
  using update_without_fields [where ex = store_execute and calls = "[]", OF fixture_lookup_1]
  by (simp add: update_request_def)

text \<open>
  C9: the update route rejects a request whose \<open>item_id\<close> is negative, whose name is
  empty or longer than 8 characters, whose price is not above 0 or whose count is
  negative. The request ends with the validation error and the world is unchanged: no
  query was sent. The store is any client.
\<close>

theorem update_request_rejects_out_of_range:
  assumes "item_id < 0
         \<or> (\<exists>n. name' = Some n \<and> (length n = 0 \<or> 8 < length n))
         \<or> (\<exists>p. price' = Some p \<and> p \<le> 0)
         \<or> (\<exists>c. count' = Some c \<and> c < 0)"
  shows "update_request ex item_id name' price' count' category_raw w
           = (Inl RequestValidationError, w)"
  using assms by (auto simp: update_request_def)

theorem update_request_rejects_out_of_range_witness:
  "update_request store_execute (- 1) None None None None (fixture, [])
     = (Inl RequestValidationError, (fixture, []))
   \<and> update_request store_execute 1 (Some []) None None None (fixture, [])
     = (Inl RequestValidationError, (fixture, []))
   \<and> update_request store_execute 1 (Some ''Hammerbox'') None None None (fixture, [])
     = (Inl RequestValidationError, (fixture, []))
   \<and> update_request store_execute 1 None (Some 0) None None (fixture, [])
     = (Inl RequestValidationError, (fixture, []))
   \<and> update_request store_execute 1 None None (Some (- 1)) None (fixture, [])
     = (Inl RequestValidationError, (fixture, []))"
  using update_request_rejects_out_of_range [of "- 1" None None None store_execute None "(fixture, [])"]
    update_request_rejects_out_of_range [of 1 "Some []" None None store_execute None "(fixture, [])"]
    update_request_rejects_out_of_range
      [of 1 "Some ''Hammerbox''" None None store_execute None "(fixture, [])"]
    update_request_rejects_out_of_range [of 1 None "Some 0" None store_execute None "(fixture, [])"]
    update_request_rejects_out_of_range
      [of 1 None None "Some (- 1)" store_execute None "(fixture, [])"]
  by simp

subsection \<open>Deletion\<close>

text \<open>
  What \<open>delete_item\<close> returns when the store answers its delete, for any client: with
  no record deleted the dictionary \<^verbatim>\<open>{"deleted": []}\<close>, otherwise
  \<^verbatim>\<open>{"deleted": r}\<close> for the first deleted record \<open>r\<close>; the delete is its one query.
\<close>

lemma delete_item_reply:
  assumes "ex \<lparr>table = ''items'', verb = Delete, filters = [(''id'', PInt item_id)]\<rparr> s
             = (Inr data, s')"
  shows "(data = [] \<longrightarrow>
            fst (delete_item ex item_id (s, calls)) = Inr (PDict [(''deleted'', PList [])]))
       \<and> (\<forall>r rs. data = r # rs \<longrightarrow>
            fst (delete_item ex item_id (s, calls)) = Inr (PDict [(''deleted'', PDict r)]))
       \<and> snd (delete_item ex item_id (s, calls)) =
            (s', calls @ [\<lparr>table = ''items'', verb = Delete,
                            filters = [(''id'', PInt item_id)]\<rparr>])"
  using assms by (simp add: delete_item_def q_delete_def q_eq_def execute_log)

text \<open>
  C5: the claim asks for \<^verbatim>\<open>{"deleted": {}}\<close> and no error when the delete matches
  no record. The code does not give it. The delete of the identifier 7 matches no record
  of the fixture, and the handler returns \<^verbatim>\<open>{"deleted": []}\<close>, with an empty list
  where the claim has an empty dictionary.
\<close>

theorem delete_item_no_match_returns_list:
  "fst (store_execute \<lparr>table = ''items'', verb = Delete, filters = [(''id'', PInt 7)]\<rparr> fixture)
     = Inr []
   \<and> fst (delete_item store_execute 7 (fixture, [])) = Inr (PDict [(''deleted'', PList [])])
   \<and> fst (delete_item store_execute 7 (fixture, [])) \<noteq> Inr (PDict [(''deleted'', PDict [])])"
  by (simp add: delete_item_def q_delete_def q_eq_def execute_def fixture_delete_7)

text \<open>
  The empty list is not of the type the handler declares for its reply, while the reply
  of the other branch, with the first deleted record, is: with the identifier 1 the
  handler returns Pliers' record, which validates as an \<open>Item\<close>.
\<close>

lemma delete_item_no_match_breaks_declared_type:
  "\<not> is_dict_str_Item (PDict [(''deleted'', PList [])])
   \<and> fst (delete_item store_execute 1 (fixture, [])) =
        Inr (PDict [(''deleted'', PDict [(''id'', PInt 1), (''name'', PStr ''Pliers''),
           (''price'', PFloat (599 / 100)), (''count'', PInt 20), (''category'', PStr ''tools'')])])
   \<and> is_dict_str_Item (PDict [(''deleted'', PDict [(''id'', PInt 1), (''name'', PStr ''Pliers''),
           (''price'', PFloat (599 / 100)), (''count'', PInt 20), (''category'', PStr ''tools'')])])"
  using delete_item_reply [where ex = store_execute and calls = "[]", OF fixture_delete_1]
  by (simp add: is_dict_str_Item_def is_Item_def Item_validate_def validate_str_def
        validate_float_def validate_int_def validate_Category_def Category_of_value_def)

subsection \<open>Categories outside the enumeration\<close>

text \<open>
  C8: a request whose category is no member of the enumeration is rejected before any
  query is sent. For the filtered query and the update, whose category arrives as text,
  this is every text other than \<^verbatim>\<open>tools\<close> and \<^verbatim>\<open>consumables\<close>; for the create
  operation, every body whose \<^verbatim>\<open>category\<close> entry is neither of these two strings
  (nor a member itself). Each request ends with the validation error and the world is
  unchanged. The store is any client.
\<close>

theorem category_outside_enum_rejected:
  assumes "v \<noteq> ''tools''" and "v \<noteq> ''consumables''"
    and "map_of body ''category'' = Some cell"
    and "cell \<notin> {PStr ''tools'', PStr ''consumables'', PCategory TOOLS, PCategory CONSUMABLES}"
  shows "add_item_request ex body w = (Inl RequestValidationError, w)
       \<and> query_item_by_parameters_request ex name' price' count' (Some v) w
            = (Inl RequestValidationError, w)
       \<and> update_request ex item_id name' price' count' (Some v) w
            = (Inl RequestValidationError, w)"
proof -
  have "Category_of_value v = None"
    using assms(1,2) by (rule Category_of_value_outside)
  moreover have "Item_validate body = Inl ValidationError"
    using assms(3,4) by (simp add: Item_validate_bad_category validate_Category_outside)
  ultimately show ?thesis
    by (simp add: add_item_request_def query_item_by_parameters_request_def update_request_def)
qed

theorem category_outside_enum_rejected_witness:
  "add_item_request store_execute
      [(''name'', PStr ''Saw''), (''price'', PFloat 3), (''count'', PInt 2),
       (''category'', PStr ''TOOLS'')]
      (fixture, []) = (Inl RequestValidationError, (fixture, []))
   \<and> query_item_by_parameters_request store_execute None None None (Some ''TOOLS'') (fixture, [])
        = (Inl RequestValidationError, (fixture, []))
   \<and> update_request store_execute 1 (Some ''Saw'') None None (Some ''TOOLS'') (fixture, [])
        = (Inl RequestValidationError, (fixture, []))"
  using category_outside_enum_rejected
    [of "''TOOLS''"
        "[(''name'', PStr ''Saw''), (''price'', PFloat 3), (''count'', PInt 2),
          (''category'', PStr ''TOOLS'')]"
        "PStr ''TOOLS''" store_execute "(fixture, [])" None None None 1]
    category_outside_enum_rejected
    [of "''TOOLS''"
        "[(''name'', PStr ''Saw''), (''price'', PFloat 3), (''count'', PInt 2),
          (''category'', PStr ''TOOLS'')]"
        "PStr ''TOOLS''" store_execute "(fixture, [])" "Some ''Saw''" None None 1]
  by simp

end
